theory Spec2Isabelle
  imports Complex_Main
begin

section \<open>The experiment orchestrator of brainfeatures\<close>

text \<open>
  A shallow embedding of the class \<open>Experiment\<close> of
  \<open>brainfeatures/experiment/experiment.py\<close>. Every method becomes a function from the
  state of the instance to either an error (the exception raised) or the updated state.
  A Python name with a leading underscore is written with the prefix \<open>u_\<close>, since an
  Isabelle name starts with a letter: \<open>_clean\<close> is \<open>u_clean\<close>, the attribute
  \<open>_cleaning_procedure\<close> is \<open>u_cleaning_procedure\<close>, while the attribute
  \<open>cleaning_procedure\<close> (no underscore) keeps its name. Wall-clock durations (the
  registry \<open>times\<close>) are not part of the model.
\<close>

subsection \<open>Python values\<close>

datatype pyval = PyNone | PyBool bool | PyInt int | PyFloat real | PyStr string

text \<open>Finite floats are read as the real numbers they denote; only their type, their
  truth value and their equality with integer literals are ever looked at.\<close>

fun num_of :: "pyval \<Rightarrow> real option" where
  "num_of (PyBool b) = Some (if b then 1 else 0)"
| "num_of (PyInt i) = Some (of_int i)"
| "num_of (PyFloat r) = Some r"
| "num_of _ = None"

definition py_eq :: "pyval \<Rightarrow> pyval \<Rightarrow> bool" where
  \<comment> \<open>Python's \<open>==\<close>: numbers (bool, int, float) compare by value, the rest by content.\<close>
  "py_eq a b = (case (num_of a, num_of b) of
                  (Some x, Some y) \<Rightarrow> x = y
                | (None, None) \<Rightarrow> a = b
                | _ \<Rightarrow> False)"

definition py_in :: "pyval \<Rightarrow> pyval list \<Rightarrow> bool" where
  "py_in a bs = list_ex (py_eq a) bs"

fun truthy :: "pyval \<Rightarrow> bool" where
  "truthy PyNone = False"
| "truthy (PyBool b) = b"
| "truthy (PyInt i) = (i \<noteq> 0)"
| "truthy (PyFloat r) = (r \<noteq> 0)"
| "truthy (PyStr s) = (s \<noteq> [])"

fun type_is_int :: "pyval \<Rightarrow> bool" where
  \<comment> \<open>\<open>type(v) is int\<close>: a bool is not of type int.\<close>
  "type_is_int (PyInt i) = True"
| "type_is_int _ = False"

fun type_in_int_float :: "pyval \<Rightarrow> bool" where
  \<comment> \<open>\<open>type(v) in [int, float]\<close>\<close>
  "type_in_int_float (PyInt i) = True"
| "type_in_int_float (PyFloat r) = True"
| "type_in_int_float _ = False"

fun int_gt :: "pyval \<Rightarrow> int \<Rightarrow> bool" where
  \<comment> \<open>\<open>v > k\<close>, only ever evaluated after \<open>type(v) is int\<close> or on a number\<close>
  "int_gt v k = (case num_of v of Some x \<Rightarrow> x > of_int k | None \<Rightarrow> False)"

fun int_ge :: "pyval \<Rightarrow> int \<Rightarrow> bool" where
  "int_ge v k = (case num_of v of Some x \<Rightarrow> x \<ge> of_int k | None \<Rightarrow> False)"

subsection \<open>Errors\<close>

datatype error =
    AssertionError string
  | AttributeError string
  | IndexError
  | KeyError string
  | TypeError
  | ValueError

definition assert_that :: "bool \<Rightarrow> string \<Rightarrow> error + unit" where
  "assert_that b msg = (if b then Inr () else Inl (AssertionError msg))"

definition and_then :: "error + 'a \<Rightarrow> ('a \<Rightarrow> error + 'b) \<Rightarrow> error + 'b" where
  "and_then m f = (case m of Inl e \<Rightarrow> Inl e | Inr x \<Rightarrow> f x)"

subsection \<open>Arrays, frames, data sets\<close>

record ndarray =
  shape :: "nat list"
  entries :: "real list"

record frame =
  columns :: "string list"
  frame_values :: ndarray

text \<open>An example, a cleaned signal or a stored feature vector is a numpy array or a
  pandas frame; \<open>.columns\<close> and \<open>.values\<close> exist on a frame only.\<close>

datatype payload = Array ndarray | DataFrame frame

fun get_columns :: "payload \<Rightarrow> error + string list" where
  "get_columns (DataFrame f) = Inr (columns f)"
| "get_columns (Array a) = Inl (AttributeError ''columns'')"

fun get_values :: "payload \<Rightarrow> error + ndarray" where
  "get_values (DataFrame f) = Inr (frame_values f)"
| "get_values (Array a) = Inl (AttributeError ''values'')"

fun get_shape :: "payload \<Rightarrow> nat list" where
  "get_shape (DataFrame f) = shape (frame_values f)"
| "get_shape (Array a) = shape a"

definition last_dim :: "nat list \<Rightarrow> error + nat" where
  \<comment> \<open>\<open>shape[-1]\<close>\<close>
  "last_dim sh = (if sh = [] then Inl IndexError else Inr (last sh))"

text \<open>What \<open>__getitem__\<close> of a data set returns: a triple (example, sampling
  frequency, label), or a tuple of another length.\<close>

datatype item = Example payload pyval int | Malformed nat

fun item_len :: "item \<Rightarrow> nat" where
  "item_len (Example x fs y) = 3"
| "item_len (Malformed n) = n"

record dataset =
  examples :: "item list"
  targets :: "int list"

subsection \<open>Procedures, parameter bundles, collaborators\<close>

type_synonym kwargs = "string \<rightharpoonup> pyval"

text \<open>An entry of an info dictionary: a plain value (the sampling frequency) or a
  table.\<close>

datatype infoval = Num pyval | Table frame

type_synonym infodict = "string \<rightharpoonup> infoval"

text \<open>A procedure is called with an example and a sampling frequency, and with the
  keyword arguments that \<open>functools.partial\<close> has bound to it.\<close>

datatype 'r proc = Proc (func: "kwargs \<Rightarrow> payload \<Rightarrow> infoval \<Rightarrow> 'r") (bound: kwargs)

definition call :: "'r proc \<Rightarrow> payload \<Rightarrow> infoval \<Rightarrow> 'r" where
  "call p x fs = func p (bound p) x fs"

definition partial :: "'r proc \<Rightarrow> kwargs \<Rightarrow> 'r proc" where
  \<comment> \<open>\<open>functools.partial(p, **kw)\<close>\<close>
  "partial p kw = Proc (func p) (bound p ++ kw)"

datatype 'f pyobj = Callable 'f | NotCallable

datatype params = Dict kwargs | NotDict

record classifier =
  n_jobs_attr :: "pyval option"
  has_fit :: bool
  has_predict :: bool

record scaler =
  has_fit_transform :: bool
  has_transform :: bool

text \<open>\<open>metrics\<close> is \<open>None\<close>, one metric, or an object with \<open>__len__\<close>: a list of
  metrics.\<close>

datatype 'm metrics = SingleMetric 'm | MetricList "'m list"

text \<open>The feature vector modifier receives the data set object, the feature store of
  the split and the feature labels; it returns a feature store and feature labels, and
  the data set as it has left it.\<close>

type_synonym modifier =
  "dataset option \<Rightarrow> payload list \<Rightarrow> string list option \<Rightarrow>
   (payload list \<times> string list option) \<times> dataset option"

datatype level = INFO | WARNING

datatype logarg = Str string | Idx nat | MeanOf frame | Clock

type_synonym log_entry = "level \<times> string \<times> logarg list"

subsection \<open>The state of an experiment\<close>

record ('p, 'm) Experiment =
  u_data_sets :: "string \<rightharpoonup> dataset option"
  u_feature_generation_procedure :: "payload option proc pyobj option"
  u_feature_generation_params :: "params option"
  u_n_splits_or_repetitions :: pyval
  u_cleaning_procedure :: "(payload \<times> pyval) proc pyobj option"
  u_cleaning_params :: "params option"
  u_shuffle_splits :: pyval
  u_pca_thresh :: pyval
  u_verbosity :: pyval
  u_metrics :: "'m metrics option"
  u_n_jobs :: pyval
  u_scaler :: "scaler option"
  u_clf :: "classifier option"
  features :: "string \<rightharpoonup> payload list"
  clean :: "string \<rightharpoonup> payload list"
  info :: "string \<rightharpoonup> infodict"
  u_feature_vector_modifier :: "modifier pyobj option"
  feature_labels :: "string list option"
  performances :: "string \<rightharpoonup> frame"
  predictions :: "string \<rightharpoonup> 'p"
  cleaning_procedure :: "(payload \<times> pyval) proc option"
  feature_generation_procedure :: "payload option proc option"
  logged :: "log_entry list"

text \<open>
  The last three fields are not assigned by \<open>__init__\<close>: \<open>cleaning_procedure\<close> and
  \<open>feature_generation_procedure\<close> are the attributes of those names, \<open>None\<close> while
  the instance has no such attribute, and \<open>logged\<close> is what the root logger has received
  (\<open>run\<close> sets its level to INFO).
\<close>

definition init ::
  "dataset option \<Rightarrow> classifier option \<Rightarrow> 'm metrics option \<Rightarrow> dataset option \<Rightarrow> pyval \<Rightarrow>
   (payload \<times> pyval) proc pyobj option \<Rightarrow> params option \<Rightarrow>
   payload option proc pyobj option \<Rightarrow> params option \<Rightarrow>
   pyval \<Rightarrow> pyval \<Rightarrow> pyval \<Rightarrow> scaler option \<Rightarrow> modifier pyobj option \<Rightarrow> pyval \<Rightarrow>
   ('p, 'm) Experiment" where
  "init devel_set clf metrics eval_set n_jobs cleaning_proc cleaning_params
        feature_generation_proc feature_generation_params n_splits_or_repetitions
        shuffle_splits pca_thresh scaler feature_vector_modifier verbosity =
   \<lparr> u_data_sets = [''devel'' \<mapsto> devel_set, ''eval'' \<mapsto> eval_set],
     u_feature_generation_procedure = feature_generation_proc,
     u_feature_generation_params = feature_generation_params,
     u_n_splits_or_repetitions = n_splits_or_repetitions,
     u_cleaning_procedure = cleaning_proc,
     u_cleaning_params = cleaning_params,
     u_shuffle_splits = shuffle_splits,
     u_pca_thresh = pca_thresh,
     u_verbosity = verbosity,
     u_metrics = metrics,
     u_n_jobs = n_jobs,
     u_scaler = scaler,
     u_clf = clf,
     features = [''devel'' \<mapsto> [], ''eval'' \<mapsto> []],
     clean = [''devel'' \<mapsto> [], ''eval'' \<mapsto> []],
     info = [''devel'' \<mapsto> Map.empty, ''eval'' \<mapsto> Map.empty],
     u_feature_vector_modifier = feature_vector_modifier,
     feature_labels = None,
     performances = Map.empty,
     predictions = Map.empty,
     cleaning_procedure = None,
     feature_generation_procedure = None,
     logged = [] \<rparr>"

definition log_msg :: "level \<Rightarrow> string \<Rightarrow> logarg list \<Rightarrow> ('p, 'm) Experiment \<Rightarrow> ('p, 'm) Experiment" where
  "log_msg lv fmt args s = s\<lparr>logged := logged s @ [(lv, fmt, args)]\<rparr>"

subsection \<open>Configuration checks: \<open>_run_checks\<close>\<close>

fun first_failure :: "(error + unit) list \<Rightarrow> error + unit" where
  "first_failure [] = Inr ()"
| "first_failure (c # cs) = (case c of Inl e \<Rightarrow> Inl e | Inr u \<Rightarrow> first_failure cs)"

fun has_call :: "'f pyobj \<Rightarrow> bool" where
  "has_call (Callable f) = True"
| "has_call NotCallable = False"

definition check_what_to_do :: "('p, 'm) Experiment \<Rightarrow> error + unit" where
  "check_what_to_do s =
     assert_that (\<not> (u_cleaning_procedure s = None
                      \<and> u_feature_generation_procedure s = None
                      \<and> u_clf s = None)) ''please specify what to do''"

definition check_verbosity :: "('p, 'm) Experiment \<Rightarrow> error + unit" where
  "check_verbosity s =
     assert_that (py_in (u_verbosity s)
        [PyStr ''DEBUG'', PyStr ''INFO'', PyStr ''WARNING'', PyStr ''ERROR'',
         PyInt 0, PyInt 10, PyInt 20, PyInt 30, PyInt 40]) ''unknown verbosity level''"

definition check_feature_generation_procedure :: "('p, 'm) Experiment \<Rightarrow> error + unit" where
  "check_feature_generation_procedure s =
     (case u_feature_generation_procedure s of
        None \<Rightarrow> Inr ()
      | Some f \<Rightarrow> assert_that (has_call f) ''feature_generation_procedure has to be a callable'')"

definition check_cleaning_procedure :: "('p, 'm) Experiment \<Rightarrow> error + unit" where
  "check_cleaning_procedure s =
     (case u_cleaning_procedure s of
        None \<Rightarrow> Inr ()
      | Some f \<Rightarrow> assert_that (has_call f) ''cleaning_procedure has to be a callable'')"

fun is_dict :: "params \<Rightarrow> bool" where
  "is_dict (Dict kw) = True"
| "is_dict NotDict = False"

definition check_cleaning_params :: "('p, 'm) Experiment \<Rightarrow> error + unit" where
  "check_cleaning_params s =
     (case u_cleaning_params s of
        None \<Rightarrow> Inr ()
      | Some d \<Rightarrow> assert_that (is_dict d) ''cleaning_params has to be a dictionary'')"

definition check_feature_generation_params :: "('p, 'm) Experiment \<Rightarrow> error + unit" where
  "check_feature_generation_params s =
     (case u_feature_generation_params s of
        None \<Rightarrow> Inr ()
      | Some d \<Rightarrow> assert_that (is_dict d) ''feature_generation_params has to be a dictionary'')"

definition check_getitem :: "('p, 'm) Experiment \<Rightarrow> error + unit" where
  \<comment> \<open>\<open>len(self._data_sets["devel"][0]) == 3\<close>\<close>
  "check_getitem s =
     (case u_data_sets s ''devel'' of
        None \<Rightarrow> Inl (KeyError ''devel'')
      | Some None \<Rightarrow> Inl TypeError
      | Some (Some d) \<Rightarrow>
          (case examples d of
             [] \<Rightarrow> Inl IndexError
           | x # xs \<Rightarrow> assert_that (item_len x = 3)
                        ''__getitem__ of data set needs to return x, fs, y''))"

definition check_shuffle_splits :: "('p, 'm) Experiment \<Rightarrow> error + unit" where
  "check_shuffle_splits s =
     assert_that (py_in (u_shuffle_splits s) [PyBool True, PyBool False])
       ''shuffle_splits has to be boolean''"

definition check_n_repetitions :: "('p, 'm) Experiment \<Rightarrow> error + unit" where
  "check_n_repetitions s =
     assert_that (type_is_int (u_n_splits_or_repetitions s)
                  \<and> int_gt (u_n_splits_or_repetitions s) 0)
       ''n_repetitions has to be an integer larger than 0''"

definition check_cv_splits :: "('p, 'm) Experiment \<Rightarrow> error + unit" where
  \<comment> \<open>\<open>if self._data_sets["eval"] is None: assert ... >= 2\<close>\<close>
  "check_cv_splits s =
     (case u_data_sets s ''eval'' of
        None \<Rightarrow> Inl (KeyError ''eval'')
      | Some None \<Rightarrow> assert_that (int_ge (u_n_splits_or_repetitions s) 2)
                       ''need at least two splits for cv''
      | Some (Some d) \<Rightarrow> Inr ())"

definition check_n_jobs :: "('p, 'm) Experiment \<Rightarrow> error + unit" where
  "check_n_jobs s =
     assert_that (type_is_int (u_n_jobs s) \<and> int_ge (u_n_jobs s) (- 1))
       ''n_jobs has to be an integer larger or equal to -1''"

definition check_modifier :: "('p, 'm) Experiment \<Rightarrow> error + unit" where
  "check_modifier s =
     (case u_feature_vector_modifier s of
        None \<Rightarrow> Inr ()
      | Some f \<Rightarrow> assert_that (has_call f) ''modifier has to be a callable'')"

definition checks_before_n_jobs :: "('p, 'm) Experiment \<Rightarrow> (error + unit) list" where
  "checks_before_n_jobs s =
     [check_what_to_do s, check_verbosity s, check_feature_generation_procedure s,
      check_cleaning_procedure s, check_cleaning_params s, check_feature_generation_params s,
      check_getitem s, check_shuffle_splits s, check_n_repetitions s, check_cv_splits s]"

definition set_clf_n_jobs :: "('p, 'm) Experiment \<Rightarrow> ('p, 'm) Experiment" where
  \<comment> \<open>\<open>if hasattr(self._clf, "n_jobs"): self._clf.n_jobs = self._n_jobs\<close>\<close>
  "set_clf_n_jobs s =
     (case u_clf s of
        None \<Rightarrow> s
      | Some c \<Rightarrow>
          (case n_jobs_attr c of
             None \<Rightarrow> s
           | Some v \<Rightarrow> s\<lparr>u_clf := Some (c\<lparr>n_jobs_attr := Some (u_n_jobs s)\<rparr>)\<rparr>))"

definition wrap_metrics :: "('p, 'm) Experiment \<Rightarrow> ('p, 'm) Experiment" where
  \<comment> \<open>a metric without \<open>__len__\<close> becomes a one-element list\<close>
  "wrap_metrics s =
     (case u_metrics s of
        Some (SingleMetric m) \<Rightarrow> s\<lparr>u_metrics := Some (MetricList [m])\<rparr>
      | _ \<Rightarrow> s)"

definition check_scaler :: "('p, 'm) Experiment \<Rightarrow> error + unit" where
  "check_scaler s =
     (case u_scaler s of
        None \<Rightarrow> Inr ()
      | Some sc \<Rightarrow> first_failure
          [assert_that (has_fit_transform sc)
             ''scaler is not following scikit-learn api (fit_transform)'',
           assert_that (has_transform sc)
             ''scaler is not following scikit-learn api (transform)''])"

definition check_clf :: "('p, 'm) Experiment \<Rightarrow> error + unit" where
  "check_clf s =
     (case u_clf s of
        None \<Rightarrow> Inr ()
      | Some c \<Rightarrow> first_failure
          [assert_that (has_fit c) ''classifier is not following scikit-learn api (fit)'',
           assert_that (has_predict c)
             ''classifier is not following scikit-learn api (predict)''])"

definition check_pca :: "('p, 'm) Experiment \<Rightarrow> error + ('p, 'm) Experiment" where
  "check_pca s =
     (if truthy (u_pca_thresh s) then
        and_then (assert_that (type_in_int_float (u_pca_thresh s))
                    ''pca_thresh has to be either int or float'')
          (\<lambda>u. if u_scaler s = None
                then Inr (log_msg WARNING ''using pca on unscaled features'' [] s)
                else Inr s)
      else Inr s)"

definition pop :: "string \<Rightarrow> (string \<rightharpoonup> 'v) \<Rightarrow> error + (string \<rightharpoonup> 'v)" where
  \<comment> \<open>\<open>d.pop(k)\<close>, which raises when the key is missing\<close>
  "pop k m = (case m k of None \<Rightarrow> Inl (KeyError k) | Some v \<Rightarrow> Inr (m(k := None)))"

definition pop_eval :: "('p, 'm) Experiment \<Rightarrow> error + ('p, 'm) Experiment" where
  "pop_eval s =
     (if u_data_sets s ''eval'' = Some None then
        and_then (pop ''eval'' (u_data_sets s)) (\<lambda>ds.
        and_then (pop ''eval'' (features s)) (\<lambda>fs.
        and_then (pop ''eval'' (clean s)) (\<lambda>cs.
        and_then (pop ''eval'' (info s)) (\<lambda>is.
          Inr (s\<lparr>u_data_sets := ds, features := fs, clean := cs, info := is\<rparr>)))))
      else Inr s)"

definition u_run_checks :: "('p, 'm) Experiment \<Rightarrow> error + ('p, 'm) Experiment" where
  "u_run_checks s =
     and_then (first_failure (checks_before_n_jobs s @ [check_n_jobs s, check_modifier s]))
       (\<lambda>u. let s1 = wrap_metrics (set_clf_n_jobs s) in
          and_then (first_failure [check_scaler s1, check_clf s1])
            (\<lambda>u. and_then (check_pca s1) pop_eval))"

subsection \<open>Dictionary and list access\<close>

definition lookup :: "string \<Rightarrow> (string \<rightharpoonup> 'v) \<Rightarrow> error + 'v" where
  \<comment> \<open>\<open>d[k]\<close>\<close>
  "lookup k m = (case m k of None \<Rightarrow> Inl (KeyError k) | Some v \<Rightarrow> Inr v)"

definition get_data_set :: "string \<Rightarrow> ('p, 'm) Experiment \<Rightarrow> error + dataset" where
  \<comment> \<open>\<open>self._data_sets[k]\<close>, used as a data set: \<open>None\<close> has no \<open>targets\<close> and is
      not iterable\<close>
  "get_data_set k s =
     and_then (lookup k (u_data_sets s))
       (\<lambda>d. case d of None \<Rightarrow> Inl TypeError | Some ds \<Rightarrow> Inr ds)"

definition get_targets :: "string \<Rightarrow> ('p, 'm) Experiment \<Rightarrow> error + int list" where
  \<comment> \<open>\<open>self._data_sets[k].targets\<close>\<close>
  "get_targets k s =
     and_then (lookup k (u_data_sets s))
       (\<lambda>d. case d of None \<Rightarrow> Inl (AttributeError ''targets'') | Some ds \<Rightarrow> Inr (targets ds))"

text \<open>Modelled from the spec: the label collection of the data set adapter, whose class
  is not part of the source file. The spec calls it "a mutable ordered label collection
  supporting positional deletion": a Python list, on which \<open>del targets[i]\<close> removes the
  element at position \<open>i\<close> of the list as it is at that moment, and raises IndexError
  when there is none.\<close>

definition del_at :: "nat \<Rightarrow> 'a list \<Rightarrow> error + 'a list" where
  "del_at i xs = (if i < length xs then Inr (take i xs @ drop (Suc i) xs) else Inl IndexError)"

subsection \<open>Running the tasks: \<open>Parallel\<close>\<close>

text \<open>Both \<open>_clean\<close> and \<open>_generate_features\<close> hand a generator of tasks to
  \<open>Parallel(n_jobs=self._n_jobs)\<close> of joblib, which is not part of the source file. Of
  joblib the model keeps what its documentation says: the tasks are drawn from the
  generator in order and their results are returned in the same order; and a count
  \<open>n_jobs == 0\<close> is refused with ValueError when the \<open>Parallel\<close> object is called,
  before the first task is drawn. The iterable of the generator expression is looked up
  before that call, when the generator is made.\<close>

definition parallel :: "pyval \<Rightarrow> error + unit" where
  "parallel n_jobs = (if py_eq n_jobs (PyInt 0) then Inl ValueError else Inr ())"

subsection \<open>Cleaning: \<open>_clean\<close>\<close>

text \<open>The generator handed to \<open>Parallel\<close> evaluates, for each item of the data set in
  turn, the unpacking of the item and then \<open>delayed(self.cleaning_procedure)\<close>: the
  attribute is read once per item, and not at all for an empty data set.\<close>

fun clean_tasks ::
  "(payload \<times> pyval) proc option \<Rightarrow> item list \<Rightarrow> error + (payload \<times> pyval) list" where
  "clean_tasks p [] = Inr []"
| "clean_tasks p (Malformed n # xs) = Inl ValueError"
| "clean_tasks p (Example x fs y # xs) =
     (case p of
        None \<Rightarrow> Inl (AttributeError ''cleaning_procedure'')
      | Some f \<Rightarrow> and_then (clean_tasks p xs) (\<lambda>rs. Inr (call f x (Num fs) # rs)))"

definition note_sfreq :: "string \<Rightarrow> pyval \<Rightarrow> ('p, 'm) Experiment \<Rightarrow> error + ('p, 'm) Experiment" where
  \<comment> \<open>\<open>if "sfreq" not in self.info[k]: self.info[k]["sfreq"] = sfreq\<close>\<close>
  "note_sfreq k fs s =
     and_then (lookup k (info s))
       (\<lambda>d. if d ''sfreq'' = None
             then Inr (s\<lparr>info := (info s)(k \<mapsto> d(''sfreq'' \<mapsto> Num fs))\<rparr>)
             else Inr s)"

definition append_clean :: "string \<Rightarrow> payload \<Rightarrow> ('p, 'm) Experiment \<Rightarrow> error + ('p, 'm) Experiment" where
  "append_clean k x s =
     and_then (lookup k (clean s)) (\<lambda>xs. Inr (s\<lparr>clean := (clean s)(k \<mapsto> xs @ [x])\<rparr>))"

definition append_features :: "string \<Rightarrow> payload \<Rightarrow> ('p, 'm) Experiment \<Rightarrow> error + ('p, 'm) Experiment" where
  "append_features k x s =
     and_then (lookup k (features s)) (\<lambda>xs. Inr (s\<lparr>features := (features s)(k \<mapsto> xs @ [x])\<rparr>))"

fun store_cleaned ::
  "string \<Rightarrow> (payload \<times> pyval) list \<Rightarrow> ('p, 'm) Experiment \<Rightarrow> error + ('p, 'm) Experiment" where
  "store_cleaned k [] s = Inr s"
| "store_cleaned k ((x, fs) # rs) s =
     and_then (note_sfreq k fs s) (\<lambda>s1.
     and_then (append_clean k x s1) (store_cleaned k rs))"

definition bind_cleaning_params :: "('p, 'm) Experiment \<Rightarrow> error + ('p, 'm) Experiment" where
  \<comment> \<open>\<open>self.cleaning_procedure = partial(self.cleaning_procedure,
      **self._cleaning_params)\<close>, when the parameters are not \<open>None\<close>\<close>
  "bind_cleaning_params s =
     (case u_cleaning_params s of
        None \<Rightarrow> Inr s
      | Some prm \<Rightarrow>
          (case cleaning_procedure s of
             None \<Rightarrow> Inl (AttributeError ''cleaning_procedure'')
           | Some p \<Rightarrow>
               (case prm of
                  NotDict \<Rightarrow> Inl TypeError
                | Dict kw \<Rightarrow> Inr (s\<lparr>cleaning_procedure := Some (partial p kw)\<rparr>))))"

definition u_clean :: "string \<Rightarrow> ('p, 'm) Experiment \<Rightarrow> error + ('p, 'm) Experiment" where
  "u_clean devel_or_eval s =
     and_then (bind_cleaning_params (log_msg INFO ''Making clean ({})'' [Str devel_or_eval] s))
       (\<lambda>s1. and_then (get_data_set devel_or_eval s1)
       (\<lambda>ds. and_then (parallel (u_n_jobs s1))
       (\<lambda>u. and_then (clean_tasks (cleaning_procedure s1) (examples ds))
       (\<lambda>cleaned_signals_and_sfreq.
          store_cleaned devel_or_eval cleaned_signals_and_sfreq s1))))"

subsection \<open>Loading: \<open>_load_cleaned_or_features\<close>\<close>

definition note_feature_labels :: "payload \<Rightarrow> ('p, 'm) Experiment \<Rightarrow> error + ('p, 'm) Experiment" where
  \<comment> \<open>\<open>if self.feature_labels is None: self.feature_labels = list(data.columns)\<close>\<close>
  "note_feature_labels x s =
     (if feature_labels s = None
      then and_then (get_columns x) (\<lambda>cols. Inr (s\<lparr>feature_labels := Some cols\<rparr>))
      else Inr s)"

definition append_to :: "string \<Rightarrow> string \<Rightarrow> payload \<Rightarrow> ('p, 'm) Experiment \<Rightarrow> error + ('p, 'm) Experiment" where
  \<comment> \<open>\<open>getattr(self, clean_or_features)[k].append(data)\<close>\<close>
  "append_to clean_or_features k x s =
     (if clean_or_features = ''clean'' then append_clean k x s
      else if clean_or_features = ''features'' then append_features k x s
      else Inl (AttributeError clean_or_features))"

fun load_items ::
  "string \<Rightarrow> string \<Rightarrow> item list \<Rightarrow> ('p, 'm) Experiment \<Rightarrow> error + ('p, 'm) Experiment" where
  "load_items k clean_or_features [] s = Inr s"
| "load_items k clean_or_features (Malformed n # xs) s = Inl ValueError"
| "load_items k clean_or_features (Example x fs y # xs) s =
     and_then (note_sfreq k fs s) (\<lambda>s1.
     and_then (note_feature_labels x s1) (\<lambda>s2.
     and_then (append_to clean_or_features k x s2) (load_items k clean_or_features xs)))"

definition u_load_cleaned_or_features ::
  "string \<Rightarrow> string \<Rightarrow> ('p, 'm) Experiment \<Rightarrow> error + ('p, 'm) Experiment" where
  "u_load_cleaned_or_features devel_or_eval clean_or_features s =
     (let s1 = log_msg INFO ''Loading {} ({})'' [Str devel_or_eval, Str clean_or_features] s
      in and_then (get_data_set devel_or_eval s1)
           (\<lambda>ds. load_items devel_or_eval clean_or_features (examples ds) s1))"

subsection \<open>Feature generation: \<open>_generate_features\<close>\<close>

definition bind_feature_generation_params :: "('p, 'm) Experiment \<Rightarrow> error + ('p, 'm) Experiment" where
  "bind_feature_generation_params s =
     (case u_feature_generation_params s of
        None \<Rightarrow> Inr s
      | Some prm \<Rightarrow>
          (case feature_generation_procedure s of
             None \<Rightarrow> Inl (AttributeError ''feature_generation_procedure'')
           | Some p \<Rightarrow>
               (case prm of
                  NotDict \<Rightarrow> Inl TypeError
                | Dict kw \<Rightarrow> Inr (s\<lparr>feature_generation_procedure := Some (partial p kw)\<rparr>))))"

text \<open>Per cleaned signal the generator evaluates
  \<open>delayed(self.feature_generation_procedure)\<close> and then
  \<open>self.info[k]["sfreq"]\<close>.\<close>

fun feature_tasks ::
  "payload option proc option \<Rightarrow> error + infoval \<Rightarrow> payload list \<Rightarrow> error + payload option list" where
  "feature_tasks p fs [] = Inr []"
| "feature_tasks p fs (x # xs) =
     (case p of
        None \<Rightarrow> Inl (AttributeError ''feature_generation_procedure'')
      | Some f \<Rightarrow> and_then fs (\<lambda>v.
                 and_then (feature_tasks p fs xs) (\<lambda>rs. Inr (call f x v # rs))))"

definition delete_target :: "string \<Rightarrow> nat \<Rightarrow> ('p, 'm) Experiment \<Rightarrow> error + ('p, 'm) Experiment" where
  \<comment> \<open>\<open>del self._data_sets[k].targets[i]\<close>\<close>
  "delete_target k i s =
     and_then (lookup k (u_data_sets s))
       (\<lambda>d. case d of
          None \<Rightarrow> Inl (AttributeError ''targets'')
        | Some ds \<Rightarrow> and_then (del_at i (targets ds))
            (\<lambda>ys. Inr (s\<lparr>u_data_sets := (u_data_sets s)(k \<mapsto> Some (ds\<lparr>targets := ys\<rparr>))\<rparr>)))"

text \<open>The loop \<open>for i, feature_vector in enumerate(feature_vectors)\<close>; \<open>i\<close> is the
  position of the result in the batch.\<close>

fun collect_features ::
  "string \<Rightarrow> nat \<Rightarrow> payload option list \<Rightarrow> ('p, 'm) Experiment \<Rightarrow> error + ('p, 'm) Experiment" where
  "collect_features k i [] s = Inr s"
| "collect_features k i (Some feature_vector # rest) s =
     and_then (note_feature_labels feature_vector s) (\<lambda>s1.
     and_then (lookup k (features s1)) (\<lambda>fs.
     and_then (get_values feature_vector) (\<lambda>v.
       collect_features k (Suc i) rest (s1\<lparr>features := (features s1)(k \<mapsto> fs @ [Array v])\<rparr>))))"
| "collect_features k i (None # rest) s =
     and_then (delete_target k i s) (\<lambda>s1.
       collect_features k (Suc i) rest
         (log_msg WARNING ''removed example {} from labels'' [Idx i] s1))"

definition check_features_match_labels ::
  "string \<Rightarrow> string \<Rightarrow> ('p, 'm) Experiment \<Rightarrow> error + unit" where
  \<comment> \<open>\<open>assert len(self.features[k]) == len(self._data_sets[k].targets), msg\<close>\<close>
  "check_features_match_labels k msg s =
     and_then (lookup k (features s)) (\<lambda>fs.
     and_then (get_targets k s) (\<lambda>ys.
       assert_that (length fs = length ys) msg))"

definition u_generate_features :: "string \<Rightarrow> ('p, 'm) Experiment \<Rightarrow> error + ('p, 'm) Experiment" where
  "u_generate_features devel_or_eval s =
     and_then (bind_feature_generation_params
                 (log_msg INFO ''Generating features ({})'' [Str devel_or_eval] s))
       (\<lambda>s1. and_then (lookup devel_or_eval (clean s1))
       (\<lambda>cs. and_then (parallel (u_n_jobs s1))
       (\<lambda>u. and_then (feature_tasks (feature_generation_procedure s1)
                          (and_then (lookup devel_or_eval (info s1)) (lookup ''sfreq'')) cs)
       (\<lambda>feature_vectors. and_then (collect_features devel_or_eval 0 feature_vectors s1)
       (\<lambda>s2. and_then (check_features_match_labels devel_or_eval
                          ''number of feature vectors does not match number of labels'' s2)
       (\<lambda>u. Inr s2))))))"

subsection \<open>The collaborators outside the file\<close>

text \<open>\<open>validate\<close> and \<open>final_evaluate\<close> (module \<open>decoding.decode\<close>) and
  \<open>analyze_quality_of_predictions\<close> (module \<open>analysis.analyze\<close>) are called by the
  experiment and defined elsewhere: they are parameters of the model. Each returns what
  the caller unpacks: predictions by role and info by role, or a performance table.\<close>

record ('p, 'm) collaborators =
  validate :: "payload list \<Rightarrow> int list \<Rightarrow> classifier option \<Rightarrow> pyval \<Rightarrow> pyval \<Rightarrow>
               scaler option \<Rightarrow> pyval \<Rightarrow> (string \<rightharpoonup> 'p) \<times> (string \<rightharpoonup> infodict)"
  final_evaluate :: "payload list \<Rightarrow> int list \<Rightarrow> payload list \<Rightarrow> int list \<Rightarrow>
               classifier option \<Rightarrow> pyval \<Rightarrow> scaler option \<Rightarrow> pyval \<Rightarrow>
               (string \<rightharpoonup> 'p) \<times> (string \<rightharpoonup> infodict)"
  analyze_quality_of_predictions :: "'p \<Rightarrow> 'm metrics option \<Rightarrow> frame"

subsection \<open>Validation and final evaluation\<close>

fun set_columns :: "infoval \<Rightarrow> string list option \<Rightarrow> error + infoval" where
  \<comment> \<open>\<open>table.columns = cols\<close>: pandas refuses \<open>None\<close> and a list of another length\<close>
  "set_columns (Num v) cols = Inl (AttributeError ''columns'')"
| "set_columns (Table t) None = Inl TypeError"
| "set_columns (Table t) (Some cs) =
     (if length cs = length (columns t) then Inr (Table (t\<lparr>columns := cs\<rparr>))
      else Inl ValueError)"

definition label_columns :: "string list option \<Rightarrow> infodict \<Rightarrow> error + infodict" where
  \<comment> \<open>lines 280 to 283, on the dictionary \<open>info["valid"]\<close>\<close>
  "label_columns labels v =
     (case v ''pca_components'' of
        Some t \<Rightarrow>
          (case labels of
             None \<Rightarrow> Inl TypeError
           | Some ls \<Rightarrow> and_then (set_columns t (Some (ls @ [''id''])))
                         (\<lambda>t'. Inr (v(''pca_components'' \<mapsto> t'))))
      | None \<Rightarrow>
          (case v ''feature_importances'' of
             Some t \<Rightarrow> and_then (set_columns t labels)
                         (\<lambda>t'. Inr (v(''feature_importances'' \<mapsto> t')))
           | None \<Rightarrow> Inr v))"

definition u_validate :: "('p, 'm) collaborators \<Rightarrow> ('p, 'm) Experiment \<Rightarrow> error + ('p, 'm) Experiment" where
  "u_validate ext s =
     (let s0 = log_msg INFO ''Making predictions (validation)'' [] s in
      and_then (check_features_match_labels ''devel''
                  ''number of devel examples and labels differs!'' s0) (\<lambda>u.
      and_then (lookup ''devel'' (features s0)) (\<lambda>fs.
      and_then (get_targets ''devel'' s0) (\<lambda>ys.
        case validate ext fs ys (u_clf s0) (u_n_splits_or_repetitions s0)
               (u_shuffle_splits s0) (u_scaler s0) (u_pca_thresh s0) of
          (validation_results, info0) \<Rightarrow>
            and_then (lookup ''valid'' info0) (\<lambda>v.
            and_then (label_columns (feature_labels s0) v) (\<lambda>v'.
              Inr (s0\<lparr>predictions := predictions s0 ++ validation_results,
                      info := info s0 ++ info0(''valid'' \<mapsto> v')\<rparr>)))))))"

definition u_final_evaluate :: "('p, 'm) collaborators \<Rightarrow> ('p, 'm) Experiment \<Rightarrow> error + ('p, 'm) Experiment" where
  "u_final_evaluate ext s =
     (let s0 = log_msg INFO ''Making predictions (final evaluation)'' [] s in
      and_then (check_features_match_labels ''eval''
                  ''number of eval examples and labels differs!'' s0) (\<lambda>u.
      and_then (lookup ''devel'' (features s0)) (\<lambda>fd.
      and_then (get_targets ''devel'' s0) (\<lambda>yd.
      and_then (lookup ''eval'' (features s0)) (\<lambda>fe.
      and_then (get_targets ''eval'' s0) (\<lambda>ye.
        case final_evaluate ext fd yd fe ye (u_clf s0) (u_n_splits_or_repetitions s0)
               (u_scaler s0) (u_pca_thresh s0) of
          (evaluation_results, eval_info) \<Rightarrow>
            Inr (s0\<lparr>predictions := predictions s0 ++ evaluation_results,
                    info := info s0 ++ eval_info\<rparr>)))))))"

subsection \<open>Performance analysis: \<open>_analyze_performance\<close>\<close>

fun analyze_roles ::
  "('p, 'm) collaborators \<Rightarrow> string list \<Rightarrow> ('p, 'm) Experiment \<Rightarrow> error + ('p, 'm) Experiment" where
  "analyze_roles ext [] s = Inr s"
| "analyze_roles ext (r # rs) s =
     (let train_or_devel = (if r = ''devel'' then ''valid'' else r) in
      and_then (lookup train_or_devel (predictions s)) (\<lambda>p.
        let perf = analyze_quality_of_predictions ext p (u_metrics s);
            s1 = s\<lparr>performances := (performances s)(train_or_devel \<mapsto> perf)\<rparr>
        in analyze_roles ext rs
             (log_msg INFO ''Achieved in average\<newline>{}\<newline> on {} set.''
                [MeanOf perf, Str train_or_devel] s1)))"

definition u_analyze_performance ::
  "('p, 'm) collaborators \<Rightarrow> string \<Rightarrow> ('p, 'm) Experiment \<Rightarrow> error + ('p, 'm) Experiment" where
  "u_analyze_performance ext devel_or_eval s =
     (let valid_or_final_evaluation =
            (if devel_or_eval = ''devel'' then ''validation'' else ''final evaluation'')
      in analyze_roles ext [''train'', ''devel'']
           (log_msg INFO ''Computing performances ({})'' [Str valid_or_final_evaluation] s))"

subsection \<open>Prediction for one split: \<open>_run_valid_or_eval\<close>\<close>

definition apply_modifier :: "string \<Rightarrow> ('p, 'm) Experiment \<Rightarrow> error + ('p, 'm) Experiment" where
  "apply_modifier k s =
     (case u_feature_vector_modifier s of
        None \<Rightarrow> Inr s
      | Some m \<Rightarrow>
          and_then (lookup k (u_data_sets s)) (\<lambda>d.
          and_then (lookup k (features s)) (\<lambda>fs.
            case m of
              NotCallable \<Rightarrow> Inl TypeError
            | Callable f \<Rightarrow>
                (case f d fs (feature_labels s) of
                   ((fs', labels'), d') \<Rightarrow>
                     (let s1 = s\<lparr>u_data_sets := (u_data_sets s)(k \<mapsto> d'),
                                  features := (features s)(k \<mapsto> fs'),
                                  feature_labels := labels'\<rparr> in
                      and_then (assert_that (length fs' > 0) ''removed all feature vectors'')
                        (\<lambda>u. and_then (last_dim (get_shape (hd fs')))
                        (\<lambda>w. case labels' of
                                None \<Rightarrow> Inl TypeError
                              | Some ls \<Rightarrow>
                                  and_then (assert_that (w = length ls)
                                    ''number of features and feature labels does not match'')
                                    (\<lambda>u. Inr s1))))))))"

definition u_run_valid_or_eval ::
  "('p, 'm) collaborators \<Rightarrow> string \<Rightarrow> ('p, 'm) Experiment \<Rightarrow> error + ('p, 'm) Experiment" where
  "u_run_valid_or_eval ext devel_or_eval s =
     and_then (apply_modifier devel_or_eval s) (\<lambda>s1.
     and_then (if devel_or_eval = ''devel'' then u_validate ext s1 else u_final_evaluate ext s1)
       (\<lambda>s2. if u_metrics s2 \<noteq> None then u_analyze_performance ext devel_or_eval s2
              else Inr s2))"

subsection \<open>The whole experiment: \<open>run\<close>\<close>

text \<open>The value of \<open>self._clf is not None and self.features["devel"]\<close> is \<open>False\<close>
  when there is no classifier, and otherwise the second operand itself: the list object
  that \<open>self.features["devel"]\<close> names at that moment, not its truth value. The loop
  tests that object at each \<open>if do_predictions\<close>, with the entries appended to it in
  the meantime. The one assignment to \<open>self.features["devel"]\<close> is that of the
  feature vector modifier, in the devel split: from then on the store names the list the
  modifier has returned, and \<open>do_predictions\<close> still the list as it was handed to the
  modifier (a modifier is taken to leave the list it is given as it was).\<close>

datatype do_predictions = PyFalse | DevelFeatures | Detached "payload list"

definition do_predictions_of :: "('p, 'm) Experiment \<Rightarrow> error + do_predictions" where
  "do_predictions_of s =
     (if u_clf s = None then Inr PyFalse
      else and_then (lookup ''devel'' (features s)) (\<lambda>fd. Inr DevelFeatures))"

fun is_true :: "do_predictions \<Rightarrow> ('p, 'm) Experiment \<Rightarrow> bool" where
  \<comment> \<open>\<open>if do_predictions:\<close>, with the instance as it is at that moment\<close>
  "is_true PyFalse s = False"
| "is_true DevelFeatures s = (case features s ''devel'' of None \<Rightarrow> False | Some fd \<Rightarrow> fd \<noteq> [])"
| "is_true (Detached fd) s = (fd \<noteq> [])"

definition after_modifier ::
  "do_predictions \<Rightarrow> string \<Rightarrow> ('p, 'm) Experiment \<Rightarrow> do_predictions" where
  \<comment> \<open>what \<open>do_predictions\<close> names once \<open>_run_valid_or_eval\<close> has run on the instance
      \<open>s\<close> for the split \<open>devel_or_eval\<close>\<close>
  "after_modifier do_predictions devel_or_eval s =
     (if do_predictions = DevelFeatures \<and> devel_or_eval = ''devel''
         \<and> u_feature_vector_modifier s \<noteq> None
      then (case features s ''devel'' of None \<Rightarrow> do_predictions | Some fd \<Rightarrow> Detached fd)
      else do_predictions)"

definition run_split ::
  "('p, 'm) collaborators \<Rightarrow> bool \<Rightarrow> bool \<Rightarrow> do_predictions \<Rightarrow> string \<Rightarrow> ('p, 'm) Experiment \<Rightarrow>
   error + ('p, 'm) Experiment \<times> do_predictions" where
  \<comment> \<open>the body of the loop over the splits\<close>
  "run_split ext do_clean do_features do_predictions devel_or_eval s =
     and_then (if do_clean then u_clean devel_or_eval s else Inr s) (\<lambda>s1.
     and_then (if do_features then
                 and_then (if \<not> do_clean
                           then u_load_cleaned_or_features devel_or_eval ''clean'' s1
                           else Inr s1)
                   (u_generate_features devel_or_eval)
               else Inr s1) (\<lambda>s2.
     and_then (if \<not> do_clean \<and> \<not> do_features
               then u_load_cleaned_or_features devel_or_eval ''features'' s2
               else Inr s2) (\<lambda>s3.
       if is_true do_predictions s3
       then and_then (u_run_valid_or_eval ext devel_or_eval s3)
              (\<lambda>s4. Inr (s4, after_modifier do_predictions devel_or_eval s3))
       else Inr (s3, do_predictions))))"

fun run_splits ::
  "('p, 'm) collaborators \<Rightarrow> bool \<Rightarrow> bool \<Rightarrow> do_predictions \<Rightarrow> string list \<Rightarrow> ('p, 'm) Experiment \<Rightarrow>
   error + ('p, 'm) Experiment" where
  "run_splits ext do_clean do_features do_predictions [] s = Inr s"
| "run_splits ext do_clean do_features do_predictions (k # ks) s =
     and_then (run_split ext do_clean do_features do_predictions k s)
       (\<lambda>(s', do_predictions'). run_splits ext do_clean do_features do_predictions' ks s')"

definition data_set_keys :: "('p, 'm) Experiment \<Rightarrow> string list" where
  \<comment> \<open>\<open>self._data_sets.keys()\<close>: the ordered dictionary was built with "devel" before
      "eval"\<close>
  "data_set_keys s = filter (\<lambda>k. u_data_sets s k \<noteq> None) [''devel'', ''eval'']"

definition run_stages :: "('p, 'm) collaborators \<Rightarrow> ('p, 'm) Experiment \<Rightarrow> error + ('p, 'm) Experiment" where
  \<comment> \<open>\<open>run\<close> from the line after \<open>self._run_checks()\<close>\<close>
  "run_stages ext s1 =
     (let do_clean = (u_cleaning_procedure s1 \<noteq> None);
          do_features = (u_feature_generation_procedure s1 \<noteq> None)
      in and_then (do_predictions_of s1) (\<lambda>do_predictions.
         and_then (run_splits ext do_clean do_features do_predictions (data_set_keys s1) s1)
           (\<lambda>s2. Inr (log_msg INFO ''Finished on {} at {}.'' [Clock, Clock] s2))))"

definition run :: "('p, 'm) collaborators \<Rightarrow> ('p, 'm) Experiment \<Rightarrow> error + ('p, 'm) Experiment" where
  "run ext s =
     and_then (u_run_checks (log_msg INFO ''Started on {} at {}'' [Clock, Clock] s))
       (run_stages ext)"

subsection \<open>Sample objects\<close>

text \<open>Concrete data sets, procedures and collaborators, on which the functions above
  are evaluated below.\<close>

definition signal :: payload where
  "signal = Array \<lparr>shape = [2], entries = [0, 1]\<rparr>"

definition feature_frame :: "string list \<Rightarrow> payload" where
  \<comment> \<open>a frame of one row with the given column labels\<close>
  "feature_frame cols =
     DataFrame \<lparr>columns = cols,
                frame_values = \<lparr>shape = [1, length cols], entries = map (\<lambda>c. 0) cols\<rparr>\<rparr>"

definition data_set_of :: "nat \<Rightarrow> dataset" where
  \<comment> \<open>\<open>n\<close> examples, sampled at 100 Hz, with the labels \<open>0, ..., n - 1\<close>\<close>
  "data_set_of n =
     \<lparr>examples = map (\<lambda>i. Example signal (PyInt 100) (int i)) [0..<n],
      targets = map int [0..<n]\<rparr>"

definition cleaner :: "(payload \<times> pyval) proc" where
  "cleaner = Proc (\<lambda>kw x fs. (x, case fs of Num v \<Rightarrow> v | Table t \<Rightarrow> PyNone)) Map.empty"

definition generator :: "payload option proc" where
  "generator = Proc (\<lambda>kw x fs. Some (feature_frame [''a'', ''b''])) Map.empty"

definition random_forest :: classifier where
  "random_forest = \<lparr>n_jobs_attr = Some PyNone, has_fit = True, has_predict = True\<rparr>"

definition standard_scaler :: scaler where
  "standard_scaler = \<lparr>has_fit_transform = True, has_transform = True\<rparr>"

definition plain_table :: "string list \<Rightarrow> frame" where
  "plain_table cols = \<lparr>columns = cols, frame_values = \<lparr>shape = [1, length cols], entries = []\<rparr>\<rparr>"

definition cross_validation :: "(nat, nat) collaborators" where
  \<comment> \<open>collaborators that answer with the roles "train" and "valid" (validation), "train"
      and "eval" (final evaluation), and an empty table\<close>
  "cross_validation =
     \<lparr>validate = (\<lambda>fs ys clf n shuffle sc pca.
         ([''train'' \<mapsto> 1, ''valid'' \<mapsto> 2], [''valid'' \<mapsto> Map.empty])),
      final_evaluate = (\<lambda>fd yd fe ye clf n sc pca.
         ([''train'' \<mapsto> 3, ''eval'' \<mapsto> 4], Map.empty)),
      analyze_quality_of_predictions = (\<lambda>p ms. plain_table [])\<rparr>"

definition scenario_A :: "(nat, nat) Experiment" where
  \<comment> \<open>devel set of 10 examples, cleaning, feature generation and classifier configured,
      no eval set, 5 splits; the other arguments have the defaults of \<open>__init__\<close>\<close>
  "scenario_A =
     init (Some (data_set_of 10)) (Some random_forest) (Some (SingleMetric 0)) None (PyInt 1)
       (Some (Callable cleaner)) None (Some (Callable generator)) (Some (Dict Map.empty))
       (PyInt 5) (PyBool False) PyNone (Some standard_scaler) None (PyStr ''INFO'')"

definition with_features :: "(nat, nat) Experiment" where
  \<comment> \<open>scenario A with a devel set of two examples, after the checks and after two feature
      vectors with the features "a" and "b" have been stored\<close>
  "with_features =
     scenario_A\<lparr>u_data_sets := [''devel'' \<mapsto> Some (data_set_of 2)],
                 u_metrics := Some (MetricList [0]),
                 features := [''devel'' \<mapsto> [Array \<lparr>shape = [1, 2], entries = [0, 0]\<rparr>,
                                            Array \<lparr>shape = [1, 2], entries = [0, 0]\<rparr>]],
                 clean := [''devel'' \<mapsto> [signal, signal]],
                 info := [''devel'' \<mapsto> [''sfreq'' \<mapsto> Num (PyInt 100)]],
                 feature_labels := Some [''a'', ''b'']\<rparr>"

definition pca_validation :: "(nat, nat) collaborators" where
  \<comment> \<open>a validation that reports a table of principal components with three columns\<close>
  "pca_validation =
     cross_validation\<lparr>validate := (\<lambda>fs ys clf n shuffle sc pca.
        ([''train'' \<mapsto> 1, ''valid'' \<mapsto> 2],
         [''valid'' \<mapsto> [''pca_components'' \<mapsto> Table (plain_table [''0'', ''1'', ''2''])]]))\<rparr>"

definition after_final_evaluation :: "(nat, nat) Experiment" where
  \<comment> \<open>an instance with predictions for the roles of the validation and of the final
      evaluation\<close>
  "after_final_evaluation =
     with_features\<lparr>predictions := [''train'' \<mapsto> 3, ''valid'' \<mapsto> 2, ''eval'' \<mapsto> 4]\<rparr>"

definition broken_signal :: payload where
  "broken_signal = Array \<lparr>shape = [0], entries = []\<rparr>"

definition fragile_generator :: "payload option proc" where
  \<comment> \<open>a feature generation that fails, returning \<open>None\<close>, on the broken signal\<close>
  "fragile_generator =
     Proc (\<lambda>kw x fs. if x = broken_signal then None else Some (feature_frame [''a'', ''b'']))
       Map.empty"

definition cleaned :: "payload list \<Rightarrow> (nat, nat) Experiment" where
  \<comment> \<open>scenario A with a devel set of three examples, labelled 0, 1 and 2, after the
      checks, with the given cleaned signals in the clean store and with the attribute
      \<open>feature_generation_procedure\<close> bound by hand to the fragile generator\<close>
  "cleaned signals =
     scenario_A\<lparr>u_data_sets := [''devel'' \<mapsto> Some (data_set_of 3)],
                 features := [''devel'' \<mapsto> []],
                 clean := [''devel'' \<mapsto> signals],
                 info := [''devel'' \<mapsto> [''sfreq'' \<mapsto> Num (PyInt 100)]],
                 feature_generation_procedure := Some fragile_generator\<rparr>"

section \<open>Properties\<close>

subsection \<open>Unfolding\<close>

lemmas check_defs = checks_before_n_jobs_def check_what_to_do_def check_verbosity_def
  check_feature_generation_procedure_def check_cleaning_procedure_def check_cleaning_params_def
  check_feature_generation_params_def check_getitem_def check_shuffle_splits_def
  check_n_repetitions_def check_cv_splits_def check_n_jobs_def check_modifier_def
  check_scaler_def check_clf_def check_pca_def pop_eval_def pop_def set_clf_n_jobs_def
  wrap_metrics_def assert_that_def and_then_def py_in_def py_eq_def log_msg_def

lemmas stage_defs = run_def run_stages_def do_predictions_of_def after_modifier_def
  lookup_def data_set_keys_def parallel_def
  run_split_def u_clean_def bind_cleaning_params_def get_data_set_def get_targets_def
  u_generate_features_def bind_feature_generation_params_def check_features_match_labels_def
  note_sfreq_def append_clean_def append_features_def note_feature_labels_def
  delete_target_def del_at_def call_def partial_def

lemmas predict_defs = u_run_valid_or_eval_def apply_modifier_def u_validate_def
  label_columns_def u_analyze_performance_def

lemmas sample_defs = cross_validation_def plain_table_def scenario_A_def init_def data_set_of_def random_forest_def
  standard_scaler_def cleaner_def generator_def feature_frame_def signal_def

subsection \<open>Scenario A\<close>

text \<open>
  C1. The claim: with a devel set of 10 examples, cleaning, feature generation and a
  classifier configured, no eval set and 5 splits, one call of \<open>run\<close> fills the devel
  feature store with 10 entries and leaves predictions and performances for the roles
  "train" and "valid". The code does not: \<open>run\<close> passes the checks and then raises
  AttributeError in \<open>_clean\<close>, which reads \<open>self.cleaning_procedure\<close> where
  \<open>__init__\<close> has assigned \<open>self._cleaning_procedure\<close>. That slip is all that stands
  between the code and the claim: on an instance on which the two attributes have been
  bound by hand to the configured procedures, \<open>run\<close> returns with 10 entries in the
  devel feature store and with predictions and performances for exactly the roles
  "train" and "valid".
\<close>

theorem scenario_A_run_raises:
  "run cross_validation scenario_A = Inl (AttributeError ''cleaning_procedure'')
   \<and> (case run cross_validation
            (scenario_A\<lparr>cleaning_procedure := Some cleaner,
                         feature_generation_procedure := Some generator\<rparr>) of
        Inl e \<Rightarrow> False
      | Inr s' \<Rightarrow> map_option length (features s' ''devel'') = Some 10
                 \<and> dom (predictions s') = {''train'', ''valid''}
                 \<and> dom (performances s') = {''train'', ''valid''})"
  by (simp add: u_run_checks_def check_defs stage_defs predict_defs sample_defs upt_rec Let_def
      insert_commute)

subsection \<open>Configuration checks\<close>

text \<open>
  C4. When the classifier, the cleaning procedure and the feature generation procedure
  are all \<open>None\<close>, the configuration checks fail with the assertion "please specify
  what to do", and so does \<open>run\<close>, in which the checks come before every stage.
\<close>

theorem nothing_to_do_fails:
  assumes "u_cleaning_procedure s = None"
    and "u_feature_generation_procedure s = None"
    and "u_clf s = None"
  shows "u_run_checks s = Inl (AssertionError ''please specify what to do'')
       \<and> run ext s = Inl (AssertionError ''please specify what to do'')"
proof -
  have fails: "u_run_checks t = Inl (AssertionError ''please specify what to do'')"
    if "u_cleaning_procedure t = None" "u_feature_generation_procedure t = None" "u_clf t = None"
    for t :: "('a, 'b) Experiment"
    using that
    by (simp add: u_run_checks_def checks_before_n_jobs_def check_what_to_do_def
        assert_that_def and_then_def)
  show ?thesis
    using assms by (simp add: fails run_def and_then_def log_msg_def)
qed

theorem nothing_to_do_fails_witness:
  "u_run_checks (scenario_A\<lparr>u_cleaning_procedure := None,
        u_feature_generation_procedure := None, u_clf := None\<rparr>)
     = Inl (AssertionError ''please specify what to do'')
   \<and> run cross_validation (scenario_A\<lparr>u_cleaning_procedure := None,
        u_feature_generation_procedure := None, u_clf := None\<rparr>)
     = Inl (AssertionError ''please specify what to do'')"
  using nothing_to_do_fails [of "scenario_A\<lparr>u_cleaning_procedure := None,
        u_feature_generation_procedure := None, u_clf := None\<rparr>" cross_validation]
  by simp

text \<open>Sequencing: \<open>_run_checks\<close> is its checks one after the other, and it returns
  only if each of them has passed.\<close>

lemma and_then_Inr: "and_then (Inr x) f = f x"
  by (simp add: and_then_def)

lemma and_then_Inl: "and_then (Inl e) f = Inl e"
  by (simp add: and_then_def)

lemma and_then_Inr_iff:
  "(and_then m f = Inr y) = (\<exists>x. m = Inr x \<and> f x = Inr y)"
  by (cases m) (simp_all add: and_then_def)

lemma and_then_first_failure_Cons:
  "and_then (first_failure (c # cs)) K = and_then c (\<lambda>u. and_then (first_failure cs) K)"
  by (cases c) (simp_all add: and_then_def)

lemma and_then_first_failure_Nil: "and_then (first_failure []) K = K ()"
  by (simp add: and_then_def)

lemma run_checks_chain:
  "u_run_checks s =
     and_then (check_what_to_do s) (\<lambda>u.
     and_then (check_verbosity s) (\<lambda>u.
     and_then (check_feature_generation_procedure s) (\<lambda>u.
     and_then (check_cleaning_procedure s) (\<lambda>u.
     and_then (check_cleaning_params s) (\<lambda>u.
     and_then (check_feature_generation_params s) (\<lambda>u.
     and_then (check_getitem s) (\<lambda>u.
     and_then (check_shuffle_splits s) (\<lambda>u.
     and_then (check_n_repetitions s) (\<lambda>u.
     and_then (check_cv_splits s) (\<lambda>u.
     and_then (check_n_jobs s) (\<lambda>u.
     and_then (check_modifier s) (\<lambda>u.
     and_then (check_scaler (wrap_metrics (set_clf_n_jobs s))) (\<lambda>u.
     and_then (check_clf (wrap_metrics (set_clf_n_jobs s))) (\<lambda>u.
     and_then (check_pca (wrap_metrics (set_clf_n_jobs s))) pop_eval))))))))))))))"
  by (simp only: u_run_checks_def checks_before_n_jobs_def append.simps
      and_then_first_failure_Cons and_then_first_failure_Nil Let_def)

lemma passed:
  assumes "u_run_checks s = Inr s'"
  shows "check_what_to_do s = Inr ()" "check_verbosity s = Inr ()"
    "check_feature_generation_procedure s = Inr ()" "check_cleaning_procedure s = Inr ()"
    "check_cleaning_params s = Inr ()" "check_feature_generation_params s = Inr ()"
    "check_getitem s = Inr ()" "check_shuffle_splits s = Inr ()"
    "check_n_repetitions s = Inr ()" "check_cv_splits s = Inr ()"
    "check_n_jobs s = Inr ()" "check_modifier s = Inr ()"
    "check_scaler (wrap_metrics (set_clf_n_jobs s)) = Inr ()"
    "check_clf (wrap_metrics (set_clf_n_jobs s)) = Inr ()"
    "and_then (check_pca (wrap_metrics (set_clf_n_jobs s))) pop_eval = Inr s'"
  using assms unfolding run_checks_chain and_then_Inr_iff by simp_all

lemma first_failure_Inr_iff:
  "(first_failure cs = Inr ()) = (\<forall>c \<in> set cs. c = Inr ())"
  by (induction cs) (auto split: sum.splits)

lemma before_n_jobs_passed:
  assumes "first_failure (checks_before_n_jobs s) = Inr ()"
  shows "check_what_to_do s = Inr ()" "check_verbosity s = Inr ()"
    "check_feature_generation_procedure s = Inr ()" "check_cleaning_procedure s = Inr ()"
    "check_cleaning_params s = Inr ()" "check_feature_generation_params s = Inr ()"
    "check_getitem s = Inr ()" "check_shuffle_splits s = Inr ()"
    "check_n_repetitions s = Inr ()" "check_cv_splits s = Inr ()"
  using assms unfolding first_failure_Inr_iff checks_before_n_jobs_def by simp_all

lemma run_checks_fails_at:
  "isl (check_n_jobs s) \<Longrightarrow> isl (u_run_checks s)"
  using passed(11) [of s] by (cases "u_run_checks s") auto

text \<open>
  C6. The check of the job count passes exactly for the integers from -1 on; a bool, a
  float, \<open>None\<close>, a string, or an integer below -1 such as -2, fails it with the assertion
  "n_jobs has to be an integer larger or equal to -1". Then \<open>_run_checks\<close> fails: with
  this very error when the checks that come before it pass, and with the error of the
  first of those that fails otherwise.
\<close>

theorem invalid_n_jobs_rejected:
  "check_n_jobs s =
     (if \<exists>n. u_n_jobs s = PyInt n \<and> - 1 \<le> n then Inr ()
      else Inl (AssertionError ''n_jobs has to be an integer larger or equal to -1''))
   \<and> (\<not> (\<exists>n. u_n_jobs s = PyInt n \<and> - 1 \<le> n) \<longrightarrow>
        isl (u_run_checks s)
        \<and> (first_failure (checks_before_n_jobs s) = Inr () \<longrightarrow>
             u_run_checks s =
               Inl (AssertionError ''n_jobs has to be an integer larger or equal to -1'')))"
proof -
  let ?ok = "\<exists>n. u_n_jobs s = PyInt n \<and> - 1 \<le> n"
  let ?err = "Inl (AssertionError ''n_jobs has to be an integer larger or equal to -1'')"
  have check: "check_n_jobs s = (if ?ok then Inr () else ?err)"
    by (cases "u_n_jobs s") (simp_all add: check_n_jobs_def assert_that_def)
  have "isl (u_run_checks s)" if "\<not> ?ok"
    using that check by (simp add: run_checks_fails_at)
  moreover have "u_run_checks s = ?err"
    if "\<not> ?ok" and before: "first_failure (checks_before_n_jobs s) = Inr ()"
  proof -
    have "check_n_jobs s = ?err"
      using that(1) check by simp
    then show ?thesis
      by (simp add: run_checks_chain before_n_jobs_passed [OF before] and_then_Inr and_then_Inl)
  qed
  ultimately show ?thesis
    using check by blast
qed

theorem invalid_n_jobs_rejected_witness:
  "check_n_jobs (scenario_A\<lparr>u_n_jobs := PyInt (- 2)\<rparr>)
     = Inl (AssertionError ''n_jobs has to be an integer larger or equal to -1'')
   \<and> u_run_checks (scenario_A\<lparr>u_n_jobs := PyInt (- 2)\<rparr>)
     = Inl (AssertionError ''n_jobs has to be an integer larger or equal to -1'')
   \<and> check_n_jobs (scenario_A\<lparr>u_n_jobs := PyInt (- 1)\<rparr>) = Inr ()
   \<and> check_n_jobs (scenario_A\<lparr>u_n_jobs := PyInt 4\<rparr>) = Inr ()"
proof -
  have before: "first_failure (checks_before_n_jobs (scenario_A\<lparr>u_n_jobs := PyInt (- 2)\<rparr>)) = Inr ()"
    by (simp add: check_defs sample_defs upt_rec)
  show ?thesis
    using before
      invalid_n_jobs_rejected [of "scenario_A\<lparr>u_n_jobs := PyInt (- 2)\<rparr>"]
      invalid_n_jobs_rejected [of "scenario_A\<lparr>u_n_jobs := PyInt (- 1)\<rparr>"]
      invalid_n_jobs_rejected [of "scenario_A\<lparr>u_n_jobs := PyInt 4\<rparr>"]
    by (simp add: sample_defs)
qed

text \<open>What the two adjustments in the middle of \<open>_run_checks\<close> (the job count of the
  classifier, the list around a single metric) leave as it is.\<close>

lemma set_clf_n_jobs_fields:
  "u_scaler (set_clf_n_jobs s) = u_scaler s"
  "u_pca_thresh (set_clf_n_jobs s) = u_pca_thresh s"
  "u_metrics (set_clf_n_jobs s) = u_metrics s"
  "logged (set_clf_n_jobs s) = logged s"
  "u_data_sets (set_clf_n_jobs s) = u_data_sets s"
  "features (set_clf_n_jobs s) = features s"
  "clean (set_clf_n_jobs s) = clean s"
  "info (set_clf_n_jobs s) = info s"
  "u_n_splits_or_repetitions (set_clf_n_jobs s) = u_n_splits_or_repetitions s"
  by (simp_all add: set_clf_n_jobs_def split: option.splits)

lemma wrap_metrics_fields:
  "u_scaler (wrap_metrics s) = u_scaler s"
  "u_pca_thresh (wrap_metrics s) = u_pca_thresh s"
  "u_clf (wrap_metrics s) = u_clf s"
  "logged (wrap_metrics s) = logged s"
  "u_data_sets (wrap_metrics s) = u_data_sets s"
  "features (wrap_metrics s) = features s"
  "clean (wrap_metrics s) = clean s"
  "info (wrap_metrics s) = info s"
  "u_n_splits_or_repetitions (wrap_metrics s) = u_n_splits_or_repetitions s"
  by (simp_all add: wrap_metrics_def split: option.splits metrics.splits)

subsection \<open>The split count\<close>

text \<open>No check but the two on the split count reads it, and the state that
  \<open>_run_checks\<close> leaves carries it unchanged.\<close>

lemma count_checks:
  "check_what_to_do (s\<lparr>u_n_splits_or_repetitions := v\<rparr>) = check_what_to_do s"
  "check_verbosity (s\<lparr>u_n_splits_or_repetitions := v\<rparr>) = check_verbosity s"
  "check_feature_generation_procedure (s\<lparr>u_n_splits_or_repetitions := v\<rparr>)
     = check_feature_generation_procedure s"
  "check_cleaning_procedure (s\<lparr>u_n_splits_or_repetitions := v\<rparr>) = check_cleaning_procedure s"
  "check_cleaning_params (s\<lparr>u_n_splits_or_repetitions := v\<rparr>) = check_cleaning_params s"
  "check_feature_generation_params (s\<lparr>u_n_splits_or_repetitions := v\<rparr>)
     = check_feature_generation_params s"
  "check_getitem (s\<lparr>u_n_splits_or_repetitions := v\<rparr>) = check_getitem s"
  "check_shuffle_splits (s\<lparr>u_n_splits_or_repetitions := v\<rparr>) = check_shuffle_splits s"
  "check_n_jobs (s\<lparr>u_n_splits_or_repetitions := v\<rparr>) = check_n_jobs s"
  "check_modifier (s\<lparr>u_n_splits_or_repetitions := v\<rparr>) = check_modifier s"
  by (simp_all add: check_what_to_do_def check_verbosity_def
      check_feature_generation_procedure_def check_cleaning_procedure_def
      check_cleaning_params_def check_feature_generation_params_def check_getitem_def
      check_shuffle_splits_def check_n_jobs_def check_modifier_def)

lemma count_prepared:
  "wrap_metrics (set_clf_n_jobs (s\<lparr>u_n_splits_or_repetitions := v\<rparr>))
     = (wrap_metrics (set_clf_n_jobs s))\<lparr>u_n_splits_or_repetitions := v\<rparr>"
  by (simp add: wrap_metrics_def set_clf_n_jobs_def split: option.splits metrics.splits)

lemma count_later_checks:
  "check_scaler (s\<lparr>u_n_splits_or_repetitions := v\<rparr>) = check_scaler s"
  "check_clf (s\<lparr>u_n_splits_or_repetitions := v\<rparr>) = check_clf s"
  by (simp_all add: check_scaler_def check_clf_def)

lemma count_pca:
  "check_pca (s\<lparr>u_n_splits_or_repetitions := v\<rparr>)
     = map_sum id (\<lambda>t. t\<lparr>u_n_splits_or_repetitions := v\<rparr>) (check_pca s)"
  by (simp add: check_pca_def assert_that_def and_then_def log_msg_def)

lemma count_pop_eval:
  "pop_eval (s\<lparr>u_n_splits_or_repetitions := v\<rparr>)
     = map_sum id (\<lambda>t. t\<lparr>u_n_splits_or_repetitions := v\<rparr>) (pop_eval s)"
  by (simp add: pop_eval_def pop_def and_then_def split: option.splits)

lemma count_end:
  assumes "and_then (check_pca s) pop_eval = Inr t"
  shows "and_then (check_pca (s\<lparr>u_n_splits_or_repetitions := v\<rparr>)) pop_eval
           = Inr (t\<lparr>u_n_splits_or_repetitions := v\<rparr>)"
proof -
  from assms obtain s2 where "check_pca s = Inr s2" "pop_eval s2 = Inr t"
    by (auto simp: and_then_Inr_iff)
  then show ?thesis
    by (simp add: count_pca count_pop_eval and_then_Inr)
qed

text \<open>
  C5. Take a configuration without evaluation set that passes the checks with the split
  count it has. With any other value \<open>v\<close> in place of the count, the checks fail when
  \<open>v\<close> is below 2 (with "n_repetitions has to be an integer larger than 0" when \<open>v\<close>
  is not a positive integer, with "need at least two splits for cv" when \<open>v\<close> is 1),
  and pass when \<open>v\<close> is an integer from 2 on, leaving the state they left before with
  \<open>v\<close> as the count.
\<close>

theorem split_count_checked:
  assumes no_eval: "u_data_sets s ''eval'' = Some None"
    and valid: "u_run_checks s = Inr t"
  shows "u_run_checks (s\<lparr>u_n_splits_or_repetitions := v\<rparr>) =
     (if \<not> (\<exists>n. v = PyInt n \<and> 0 < n)
        then Inl (AssertionError ''n_repetitions has to be an integer larger than 0'')
      else if v = PyInt 1
        then Inl (AssertionError ''need at least two splits for cv'')
      else Inr (t\<lparr>u_n_splits_or_repetitions := v\<rparr>))"
proof -
  let ?s = "s\<lparr>u_n_splits_or_repetitions := v\<rparr>"
  note p = passed [OF valid]
  have rep: "check_n_repetitions ?s =
      (if \<exists>n. v = PyInt n \<and> 0 < n then Inr ()
       else Inl (AssertionError ''n_repetitions has to be an integer larger than 0''))"
    by (cases v) (simp_all add: check_n_repetitions_def assert_that_def)
  have cv: "check_cv_splits ?s =
      (if v = PyInt 1 then Inl (AssertionError ''need at least two splits for cv'')
       else Inr ())" if "\<exists>n. v = PyInt n \<and> 0 < n"
    using that no_eval by (auto simp: check_cv_splits_def assert_that_def)
  have rest: "and_then (check_pca (wrap_metrics (set_clf_n_jobs ?s))) pop_eval
      = Inr (t\<lparr>u_n_splits_or_repetitions := v\<rparr>)"
    using p(15) by (simp add: count_prepared count_end)
  show ?thesis
  proof (cases "\<exists>n. v = PyInt n \<and> 0 < n")
    case False
    then have "check_n_repetitions ?s
        = Inl (AssertionError ''n_repetitions has to be an integer larger than 0'')"
      using rep by simp
    then have "u_run_checks ?s
        = Inl (AssertionError ''n_repetitions has to be an integer larger than 0'')"
      by (simp add: run_checks_chain count_checks p(1-8) and_then_Inr and_then_Inl)
    then show ?thesis
      using False by simp
  next
    case True
    then have r: "check_n_repetitions ?s = Inr ()"
      using rep by simp
    show ?thesis
    proof (cases "v = PyInt 1")
      case one: True
      then have "check_cv_splits ?s = Inl (AssertionError ''need at least two splits for cv'')"
        using cv [OF True] by simp
      then have "u_run_checks ?s = Inl (AssertionError ''need at least two splits for cv'')"
        by (simp add: run_checks_chain count_checks p(1-8) r and_then_Inr and_then_Inl)
      then show ?thesis
        using True one by simp
    next
      case more: False
      then have "check_cv_splits ?s = Inr ()"
        using cv [OF True] by simp
      then have "u_run_checks ?s = Inr (t\<lparr>u_n_splits_or_repetitions := v\<rparr>)"
        using rest
        by (simp add: run_checks_chain count_checks count_prepared count_later_checks
            p(1-8) p(11-14) r and_then_Inr and_then_Inl)
      then show ?thesis
        using True more by simp
    qed
  qed
qed

theorem split_count_checked_witness:
  "u_run_checks (scenario_A\<lparr>u_n_splits_or_repetitions := PyInt 1\<rparr>)
     = Inl (AssertionError ''need at least two splits for cv'')
   \<and> u_run_checks (scenario_A\<lparr>u_n_splits_or_repetitions := PyInt 0\<rparr>)
     = Inl (AssertionError ''n_repetitions has to be an integer larger than 0'')
   \<and> isl (u_run_checks (scenario_A\<lparr>u_n_splits_or_repetitions := PyInt 2\<rparr>)) = False
   \<and> isl (u_run_checks (scenario_A\<lparr>u_n_splits_or_repetitions := PyInt 7\<rparr>)) = False"
proof -
  have no_eval: "u_data_sets scenario_A ''eval'' = Some None"
    by (simp add: sample_defs)
  obtain t where valid: "u_run_checks scenario_A = Inr t"
    by (simp add: u_run_checks_def check_defs sample_defs upt_rec)
  show ?thesis
    using split_count_checked [OF no_eval valid, of "PyInt 1"]
      split_count_checked [OF no_eval valid, of "PyInt 0"]
      split_count_checked [OF no_eval valid, of "PyInt 2"]
      split_count_checked [OF no_eval valid, of "PyInt 7"]
    by simp
qed

subsection \<open>PCA without a scaler\<close>

text \<open>The threshold is read by the last check only, the scaler by that check and by the
  check of the scaler itself, and the log by none.\<close>

lemma pca_checks:
  "check_what_to_do (s\<lparr>u_pca_thresh := v, u_scaler := sc, logged := l\<rparr>) = check_what_to_do s"
  "check_verbosity (s\<lparr>u_pca_thresh := v, u_scaler := sc, logged := l\<rparr>) = check_verbosity s"
  "check_feature_generation_procedure (s\<lparr>u_pca_thresh := v, u_scaler := sc, logged := l\<rparr>)
     = check_feature_generation_procedure s"
  "check_cleaning_procedure (s\<lparr>u_pca_thresh := v, u_scaler := sc, logged := l\<rparr>)
     = check_cleaning_procedure s"
  "check_cleaning_params (s\<lparr>u_pca_thresh := v, u_scaler := sc, logged := l\<rparr>)
     = check_cleaning_params s"
  "check_feature_generation_params (s\<lparr>u_pca_thresh := v, u_scaler := sc, logged := l\<rparr>)
     = check_feature_generation_params s"
  "check_getitem (s\<lparr>u_pca_thresh := v, u_scaler := sc, logged := l\<rparr>) = check_getitem s"
  "check_shuffle_splits (s\<lparr>u_pca_thresh := v, u_scaler := sc, logged := l\<rparr>)
     = check_shuffle_splits s"
  "check_n_repetitions (s\<lparr>u_pca_thresh := v, u_scaler := sc, logged := l\<rparr>)
     = check_n_repetitions s"
  "check_cv_splits (s\<lparr>u_pca_thresh := v, u_scaler := sc, logged := l\<rparr>) = check_cv_splits s"
  "check_n_jobs (s\<lparr>u_pca_thresh := v, u_scaler := sc, logged := l\<rparr>) = check_n_jobs s"
  "check_modifier (s\<lparr>u_pca_thresh := v, u_scaler := sc, logged := l\<rparr>) = check_modifier s"
  "check_clf (s\<lparr>u_pca_thresh := v, u_scaler := sc, logged := l\<rparr>) = check_clf s"
  by (simp_all add: check_what_to_do_def check_verbosity_def
      check_feature_generation_procedure_def check_cleaning_procedure_def
      check_cleaning_params_def check_feature_generation_params_def check_getitem_def
      check_shuffle_splits_def check_n_repetitions_def check_cv_splits_def
      check_n_jobs_def check_modifier_def check_clf_def split: option.splits)

lemma pca_prepared:
  "wrap_metrics (set_clf_n_jobs (s\<lparr>u_pca_thresh := v, u_scaler := sc, logged := l\<rparr>))
     = (wrap_metrics (set_clf_n_jobs s))\<lparr>u_pca_thresh := v, u_scaler := sc, logged := l\<rparr>"
  by (simp add: wrap_metrics_def set_clf_n_jobs_def split: option.splits metrics.splits)

lemma pca_pop_eval:
  "pop_eval (s\<lparr>u_pca_thresh := v, u_scaler := sc, logged := l\<rparr>)
     = map_sum id (\<lambda>t. t\<lparr>u_pca_thresh := v, u_scaler := sc, logged := l\<rparr>) (pop_eval s)"
  by (simp add: pop_eval_def pop_def and_then_def split: option.splits)

lemma check_pca_result:
  assumes "check_pca s = Inr s2"
  shows "s2\<lparr>u_pca_thresh := v, u_scaler := sc, logged := l\<rparr>
           = s\<lparr>u_pca_thresh := v, u_scaler := sc, logged := l\<rparr>"
  using assms
  by (auto simp: check_pca_def and_then_def assert_that_def log_msg_def split: if_splits)

lemma check_pca_warns:
  assumes "truthy v" and "type_in_int_float v"
  shows "check_pca (s\<lparr>u_pca_thresh := v, u_scaler := None, logged := l\<rparr>)
     = Inr (s\<lparr>u_pca_thresh := v, u_scaler := None,
              logged := l @ [(WARNING, ''using pca on unscaled features'', [])]\<rparr>)"
  using assms by (simp add: check_pca_def and_then_def assert_that_def log_msg_def)

lemma run_checks_pca_without_scaler:
  assumes valid: "u_run_checks s = Inr t"
    and v: "truthy v" "type_in_int_float v"
  shows "u_run_checks (s\<lparr>u_pca_thresh := v, u_scaler := None, logged := l\<rparr>)
     = Inr (t\<lparr>u_pca_thresh := v, u_scaler := None,
              logged := l @ [(WARNING, ''using pca on unscaled features'', [])]\<rparr>)"
proof -
  let ?w = "(WARNING, ''using pca on unscaled features'', [])"
  let ?s1 = "wrap_metrics (set_clf_n_jobs s)"
  note p = passed [OF valid]
  from p(15) obtain s2 where s2: "check_pca ?s1 = Inr s2" "pop_eval s2 = Inr t"
    by (auto simp: and_then_Inr_iff)
  have "pop_eval (s2\<lparr>u_pca_thresh := v, u_scaler := None, logged := l @ [?w]\<rparr>)
      = Inr (t\<lparr>u_pca_thresh := v, u_scaler := None, logged := l @ [?w]\<rparr>)"
    using s2(2) by (simp add: pca_pop_eval)
  then have pop: "pop_eval (?s1\<lparr>u_pca_thresh := v, u_scaler := None, logged := l @ [?w]\<rparr>)
      = Inr (t\<lparr>u_pca_thresh := v, u_scaler := None, logged := l @ [?w]\<rparr>)"
    by (simp only: check_pca_result [OF s2(1)])
  have scaler: "check_scaler (?s1\<lparr>u_pca_thresh := v, u_scaler := None, logged := l\<rparr>) = Inr ()"
    by (simp add: check_scaler_def)
  show ?thesis
    using pop
    by (simp only: run_checks_chain pca_checks pca_prepared p(1-12) p(14) scaler
        check_pca_warns [OF v] and_then_Inr)
qed

text \<open>
  C7. Take a configuration that passes the checks, and in it set the PCA threshold to a
  number \<open>v\<close> that Python reads as true (an int or a float other than zero; the check
  is \<open>if self._pca_thresh\<close>) and the scaler to \<open>None\<close>. The checks still pass; they
  leave the state they left before, with the new threshold and scaler, and with the
  warning "using pca on unscaled features" as the one entry they have added to the log.
  And \<open>run\<close> goes on to its stages with that state, after its opening log entry.
\<close>

theorem pca_without_scaler_warns:
  assumes valid: "u_run_checks s = Inr t"
    and thresh: "truthy v" "type_in_int_float v"
  shows "u_run_checks (s\<lparr>u_pca_thresh := v, u_scaler := None\<rparr>)
           = Inr (t\<lparr>u_pca_thresh := v, u_scaler := None,
                    logged := logged s @ [(WARNING, ''using pca on unscaled features'', [])]\<rparr>)
       \<and> run ext (s\<lparr>u_pca_thresh := v, u_scaler := None\<rparr>)
           = run_stages ext
               (t\<lparr>u_pca_thresh := v, u_scaler := None,
                   logged := logged s @ [(INFO, ''Started on {} at {}'', [Clock, Clock]),
                                         (WARNING, ''using pca on unscaled features'', [])]\<rparr>)"
proof -
  have a: "s\<lparr>u_pca_thresh := v, u_scaler := None\<rparr>
      = s\<lparr>u_pca_thresh := v, u_scaler := None, logged := logged s\<rparr>"
    by simp
  have b: "log_msg INFO ''Started on {} at {}'' [Clock, Clock] (s\<lparr>u_pca_thresh := v, u_scaler := None\<rparr>)
      = s\<lparr>u_pca_thresh := v, u_scaler := None,
           logged := logged s @ [(INFO, ''Started on {} at {}'', [Clock, Clock])]\<rparr>"
    by (simp add: log_msg_def)
  have "u_run_checks (s\<lparr>u_pca_thresh := v, u_scaler := None\<rparr>)
           = Inr (t\<lparr>u_pca_thresh := v, u_scaler := None,
                    logged := logged s @ [(WARNING, ''using pca on unscaled features'', [])]\<rparr>)"
    using run_checks_pca_without_scaler [OF valid thresh, of "logged s"]
    by (simp only: a [symmetric])
  moreover have "run ext (s\<lparr>u_pca_thresh := v, u_scaler := None\<rparr>)
           = run_stages ext
               (t\<lparr>u_pca_thresh := v, u_scaler := None,
                   logged := logged s @ [(INFO, ''Started on {} at {}'', [Clock, Clock]),
                                         (WARNING, ''using pca on unscaled features'', [])]\<rparr>)"
    unfolding run_def b
    using run_checks_pca_without_scaler [OF valid thresh,
        of "logged s @ [(INFO, ''Started on {} at {}'', [Clock, Clock])]"]
    by (simp add: and_then_Inr)
  ultimately show ?thesis
    by simp
qed

theorem pca_without_scaler_warns_witness:
  "(case u_run_checks (scenario_A\<lparr>u_pca_thresh := PyFloat (9 / 10), u_scaler := None\<rparr>) of
      Inl e \<Rightarrow> False
    | Inr t \<Rightarrow> logged t = [(WARNING, ''using pca on unscaled features'', [])]
               \<and> u_pca_thresh t = PyFloat (9 / 10) \<and> u_scaler t = None)"
proof -
  obtain t where valid: "u_run_checks scenario_A = Inr t"
    by (simp add: u_run_checks_def check_defs sample_defs upt_rec)
  have thresh: "truthy (PyFloat (9 / 10))" "type_in_int_float (PyFloat (9 / 10))"
    by simp_all
  have empty: "logged scenario_A = []"
    by (simp add: sample_defs)
  have "u_run_checks (scenario_A\<lparr>u_pca_thresh := PyFloat (9 / 10), u_scaler := None\<rparr>)
      = Inr (t\<lparr>u_pca_thresh := PyFloat (9 / 10), u_scaler := None,
               logged := logged scenario_A
                 @ [(WARNING, ''using pca on unscaled features'', [])]\<rparr>)"
    using pca_without_scaler_warns [OF valid thresh, of cross_validation] by blast
  then show ?thesis
    by (simp add: empty)
qed

subsection \<open>Validation\<close>

text \<open>Where the assignment of column labels succeeds, the table is a frame, the labels
  are a list of as many names as the frame has columns, and the frame has them as its
  columns afterwards.\<close>

lemma set_columns_Inr:
  assumes "set_columns tbl labels = Inr tbl'"
  shows "\<exists>t ls. tbl = Table t \<and> labels = Some ls \<and> length ls = length (columns t)
           \<and> tbl' = Table (t\<lparr>columns := ls\<rparr>)"
  using assms by (cases "(tbl, labels)" rule: set_columns.cases) (auto split: if_splits)

lemma label_columns_Inr:
  assumes "label_columns labels v = Inr v'"
  shows "case v ''pca_components'' of
           Some tbl \<Rightarrow>
             (\<exists>t ls. tbl = Table t \<and> labels = Some ls
                \<and> v' = v(''pca_components'' \<mapsto> Table (t\<lparr>columns := ls @ [''id'']\<rparr>)))
         | None \<Rightarrow>
             (case v ''feature_importances'' of
                Some tbl \<Rightarrow>
                  (\<exists>t ls. tbl = Table t \<and> labels = Some ls
                     \<and> v' = v(''feature_importances'' \<mapsto> Table (t\<lparr>columns := ls\<rparr>)))
              | None \<Rightarrow> v' = v)"
proof (cases "v ''pca_components''")
  case (Some tbl)
  with assms obtain ls tbl' where "labels = Some ls"
    "set_columns tbl (Some (ls @ [''id''])) = Inr tbl'" "v' = v(''pca_components'' \<mapsto> tbl')"
    by (auto simp: label_columns_def and_then_Inr_iff split: option.splits)
  then show ?thesis
    using Some set_columns_Inr [of tbl "Some (ls @ [''id''])" tbl'] by auto
next
  case None
  show ?thesis
  proof (cases "v ''feature_importances''")
    case no: None
    then show ?thesis
      using assms None by (simp add: label_columns_def)
  next
    case (Some tbl)
    with assms None obtain tbl' where
      "set_columns tbl labels = Inr tbl'" "v' = v(''feature_importances'' \<mapsto> tbl')"
      by (auto simp: label_columns_def and_then_Inr_iff)
    then show ?thesis
      using Some None set_columns_Inr [of tbl labels tbl'] by auto
  qed
qed

text \<open>
  C8. Let \<open>_validate\<close> return, and let \<open>v\<close> be the info that the validation has
  reported for the role "valid". If \<open>v\<close> has an entry "pca_components", that table is
  stored with the feature labels followed by "id" as its columns. Otherwise, if \<open>v\<close>
  has an entry "feature_importances", that table is stored with exactly the feature
  labels as its columns. Otherwise \<open>v\<close> is stored as it is. In each case the rest of
  \<open>v\<close> is stored unchanged, under the key "valid" of the info of the experiment.
\<close>

theorem validate_labels_columns:
  assumes ok: "u_validate ext s = Inr s'"
    and fs: "features s ''devel'' = Some fs"
    and ys: "get_targets ''devel'' s = Inr ys"
    and call: "validate ext fs ys (u_clf s) (u_n_splits_or_repetitions s) (u_shuffle_splits s)
                 (u_scaler s) (u_pca_thresh s) = (validation_results, info0)"
    and v: "info0 ''valid'' = Some v"
  shows "case v ''pca_components'' of
           Some tbl \<Rightarrow>
             (\<exists>t ls. tbl = Table t \<and> feature_labels s = Some ls
                \<and> info s' ''valid''
                    = Some (v(''pca_components'' \<mapsto> Table (t\<lparr>columns := ls @ [''id'']\<rparr>))))
         | None \<Rightarrow>
             (case v ''feature_importances'' of
                Some tbl \<Rightarrow>
                  (\<exists>t ls. tbl = Table t \<and> feature_labels s = Some ls
                     \<and> info s' ''valid''
                         = Some (v(''feature_importances'' \<mapsto> Table (t\<lparr>columns := ls\<rparr>))))
              | None \<Rightarrow> info s' ''valid'' = Some v)"
proof -
  let ?s0 = "log_msg INFO ''Making predictions (validation)'' [] s"
  have s0: "features ?s0 = features s" "get_targets ''devel'' ?s0 = get_targets ''devel'' s"
    "u_clf ?s0 = u_clf s" "u_n_splits_or_repetitions ?s0 = u_n_splits_or_repetitions s"
    "u_shuffle_splits ?s0 = u_shuffle_splits s" "u_scaler ?s0 = u_scaler s"
    "u_pca_thresh ?s0 = u_pca_thresh s" "feature_labels ?s0 = feature_labels s"
    by (simp_all add: log_msg_def get_targets_def)
  from ok obtain v' where lab: "label_columns (feature_labels s) v = Inr v'"
    and s': "s' = ?s0\<lparr>predictions := predictions ?s0 ++ validation_results,
                       info := info ?s0 ++ info0(''valid'' \<mapsto> v')\<rparr>"
    unfolding u_validate_def Let_def s0
    by (auto simp: and_then_Inr_iff lookup_def fs ys call v)
  have "info s' ''valid'' = Some v'"
    by (simp add: s')
  then show ?thesis
    using label_columns_Inr [OF lab] by (auto split: option.splits)
qed

theorem validate_labels_columns_witness:
  "(case u_validate pca_validation with_features of
      Inl e \<Rightarrow> False
    | Inr s' \<Rightarrow> info s' ''valid''
        = Some [''pca_components'' \<mapsto>
                  Table ((plain_table [''0'', ''1'', ''2''])\<lparr>columns := [''a'', ''b'', ''id'']\<rparr>)])"
proof -
  obtain s' where ok: "u_validate pca_validation with_features = Inr s'"
    by (simp add: u_validate_def with_features_def check_features_match_labels_def lookup_def
        get_targets_def data_set_of_def assert_that_def and_then_def log_msg_def
        pca_validation_def cross_validation_def label_columns_def plain_table_def Let_def upt_rec)
  have fs: "features with_features ''devel''
      = Some [Array \<lparr>shape = [1, 2], entries = [0, 0]\<rparr>, Array \<lparr>shape = [1, 2], entries = [0, 0]\<rparr>]"
    by (simp add: with_features_def)
  have ys: "get_targets ''devel'' with_features = Inr [0, 1]"
    by (simp add: with_features_def get_targets_def lookup_def and_then_def data_set_of_def upt_rec)
  have call: "validate pca_validation
      [Array \<lparr>shape = [1, 2], entries = [0, 0]\<rparr>, Array \<lparr>shape = [1, 2], entries = [0, 0]\<rparr>] [0, 1]
      (u_clf with_features) (u_n_splits_or_repetitions with_features)
      (u_shuffle_splits with_features) (u_scaler with_features) (u_pca_thresh with_features)
      = ([''train'' \<mapsto> 1, ''valid'' \<mapsto> 2],
         [''valid'' \<mapsto> [''pca_components'' \<mapsto> Table (plain_table [''0'', ''1'', ''2''])]])"
    by (simp add: pca_validation_def)
  have v: "[''valid'' \<mapsto> [''pca_components'' \<mapsto> Table (plain_table [''0'', ''1'', ''2''])]] ''valid''
      = Some [''pca_components'' \<mapsto> Table (plain_table [''0'', ''1'', ''2''])]"
    by simp
  have labels: "feature_labels with_features = Some [''a'', ''b'']"
    by (simp add: with_features_def)
  show ?thesis
    using validate_labels_columns [OF ok fs ys call v] labels
    by (simp add: ok)
qed

subsection \<open>Performance analysis\<close>

text \<open>
  C9. The claim: the analyzer computes one performance table per role of the current
  mode, for "train" and "valid" in validation mode and for the roles of the evaluation
  in final evaluation mode. The code does so in validation mode only. Its argument
  \<open>devel_or_eval\<close>, which the docstring calls the data set on whose predictions the
  metrics are applied, reaches nothing but the first log message: in either mode the
  analyzer reads the predictions of "train" and of "valid", raises KeyError when one of
  them is missing, and otherwise stores a table for exactly these two roles. On an
  instance that has predictions for "train", "valid" and "eval", the analysis of the
  final evaluation stores tables for "train" and "valid" and none for "eval".
\<close>

theorem analyze_performance_ignores_mode:
  "u_analyze_performance ext devel_or_eval s =
     (case predictions s ''train'' of
        None \<Rightarrow> Inl (KeyError ''train'')
      | Some p \<Rightarrow>
          (case predictions s ''valid'' of
             None \<Rightarrow> Inl (KeyError ''valid'')
           | Some q \<Rightarrow>
               Inr (s\<lparr>performances := (performances s)
                          (''train'' \<mapsto> analyze_quality_of_predictions ext p (u_metrics s),
                           ''valid'' \<mapsto> analyze_quality_of_predictions ext q (u_metrics s)),
                       logged := logged s @
                         [(INFO, ''Computing performances ({})'',
                             [Str (if devel_or_eval = ''devel'' then ''validation''
                                   else ''final evaluation'')]),
                          (INFO, ''Achieved in average\<newline>{}\<newline> on {} set.'',
                             [MeanOf (analyze_quality_of_predictions ext p (u_metrics s)),
                              Str ''train'']),
                          (INFO, ''Achieved in average\<newline>{}\<newline> on {} set.'',
                             [MeanOf (analyze_quality_of_predictions ext q (u_metrics s)),
                              Str ''valid''])]\<rparr>)))
   \<and> (case u_analyze_performance cross_validation ''eval'' after_final_evaluation of
         Inl e \<Rightarrow> False
       | Inr s' \<Rightarrow> dom (performances s') = {''train'', ''valid''}
                  \<and> performances s' ''eval'' = None)"
  by (simp add: u_analyze_performance_def lookup_def and_then_def log_msg_def Let_def
      after_final_evaluation_def with_features_def sample_defs insert_commute
      split: option.splits)

subsection \<open>The procedures that are never applied\<close>












subsection \<open>Labels of failed examples\<close>

text \<open>
  C2. The claim: after feature generation the feature store and the labels have the
  same length, whatever the mixture of successes and failures, each failure having had
  its label deleted. The comment in the code says the same: "if feature generation
  fails, and therefore feature vector is None remove according label!". The code deletes
  at the position \<open>i\<close> of the failure in the batch, in a list that every earlier
  deletion has made shorter: from the second failure on it deletes the label of a later
  example, or raises IndexError. With three examples labelled 0, 1, 2, on an instance
  whose attribute \<open>feature_generation_procedure\<close> is bound: when the first two fail,
  the stage returns with one feature vector, that of the example labelled 2, and with
  the one label 1; when the last two fail, the stage raises IndexError. A single failure
  is handled as the comment says.
\<close>

theorem label_deletion_drifts:
  "(case u_generate_features ''devel'' (cleaned [broken_signal, broken_signal, signal]) of
      Inl e \<Rightarrow> False
    | Inr s' \<Rightarrow> map_option length (features s' ''devel'') = Some 1
               \<and> get_targets ''devel'' s' = Inr [1])
   \<and> u_generate_features ''devel'' (cleaned [signal, broken_signal, broken_signal])
       = Inl IndexError
   \<and> (case u_generate_features ''devel'' (cleaned [signal, broken_signal, signal]) of
      Inl e \<Rightarrow> False
    | Inr s' \<Rightarrow> map_option length (features s' ''devel'') = Some 2
               \<and> get_targets ''devel'' s' = Inr [0, 2])"
  by (simp add: stage_defs check_defs sample_defs cleaned_def fragile_generator_def
      broken_signal_def upt_rec)

end
